theory Spec2Isabelle
  imports Complex_Main "HOL-Library.Sublist" "HOL-Library.Multiset"
begin

text \<open>
  The retrieval and indexing core of the SOW generator: the retriever scores the entries of
  an index against a query embedding by cosine similarity, ranks them and filters the
  ranking; the two indexers (one over a Google Drive folder, one over a local directory)
  build the index from documents, with metadata from a language model or from the file
  name, and write it to disk. What leaves the repository (the Drive API, text extraction,
  the language model, the embedding model, the file system) is a parameter of the model.
\<close>

section \<open>Data model\<close>

text \<open>
  An index entry is a flat JavaScript object. The metadata object (produced by the language
  model or by the file-name heuristics) is spread into it, next to the identifying fields and
  the optional \<open>embedding\<close>. A field that the object may lack is an \<open>option\<close>:
  \<open>None\<close> is JavaScript's \<open>undefined\<close>/\<open>null\<close>. Vector components are modelled as
  real numbers (the source computes with IEEE doubles; rounding, overflow and NaN are outside
  this model).
\<close>

datatype error = CollaboratorError

record metadata =
  customer :: "string option"
  project :: "string option"
  industry :: "string option"
  modules :: "string list option"
  integrations :: "string list option"
  features :: "string list option"
  complexity :: "string option"
  summary :: "string option"
  "keywords" :: "string list option"

record fields = metadata +
  doc_id :: string
  fileName :: "string option"
  filePath :: "string option"
  webViewLink :: "string option"
  createdTime :: "string option"
  modifiedTime :: "string option"
  textLength :: "nat option"

record doc = fields +
  embedding :: "real list option"

record scored = fields +
  score :: real

section \<open>Retriever (src/retriever/rag-retriever.js)\<close>

subsection \<open>cosineSimilarity\<close>

text \<open>
  The \<open>for\<close> loop of \<open>cosineSimilarity\<close>, with its three accumulators. It is only entered
  when both vectors are present and of equal length.
\<close>

function cosineLoop :: "real list \<Rightarrow> real list \<Rightarrow> nat \<Rightarrow> real \<times> real \<times> real \<Rightarrow> real \<times> real \<times> real" where
  "cosineLoop vecA vecB i (dotProduct, normA, normB) =
     (if i < length vecA
      then cosineLoop vecA vecB (i + 1)
             (dotProduct + vecA ! i * vecB ! i, normA + vecA ! i * vecA ! i, normB + vecB ! i * vecB ! i)
      else (dotProduct, normA, normB))"
  by pat_completeness auto
termination
  by (relation "measure (\<lambda>(vecA, vecB, i, acc). length vecA - i)") auto

declare cosineLoop.simps [simp del]

definition cosineSimilarity :: "real list option \<Rightarrow> real list option \<Rightarrow> real" where
  "cosineSimilarity vecA vecB =
     (case (vecA, vecB) of
        (Some a, Some b) \<Rightarrow>
          if length a \<noteq> length b then 0
          else (case cosineLoop a b 0 (0, 0, 0) of
                  (dotProduct, normA, normB) \<Rightarrow>
                    if normA = 0 \<or> normB = 0 then 0
                    else dotProduct / (sqrt normA * sqrt normB))
      | _ \<Rightarrow> 0)"



subsection \<open>findSimilar\<close>

text \<open>
  \<open>{...doc, score}\<close> followed, after sorting and slicing, by the removal of \<open>embedding\<close>:
  the intermediate object is the pair of the entry and its score, the result is the entry's
  other fields with \<open>score\<close>.
\<close>

definition stripEmbedding :: "doc \<times> real \<Rightarrow> scored" where
  "stripEmbedding ds = fields.extend (fields.truncate (fst ds)) (scored.fields (snd ds))"

text \<open>
  \<open>Array.prototype.sort\<close> with the comparator \<open>b.score - a.score\<close>: a stable sort
  (ECMAScript 2019) into descending score order, that is, ascending in the negated score.
\<close>

definition sortByScore :: "(doc \<times> real) list \<Rightarrow> (doc \<times> real) list" where
  "sortByScore similarities = sort_key (\<lambda>ds. - snd ds) similarities"

text \<open>
  \<open>topK\<close> is a number of results (the callers pass a count, 5 by default), a natural
  number here, so that \<open>slice(0, topK)\<close> is \<open>take topK\<close>; what \<open>slice\<close> does with a
  negative or fractional end is outside this model. The embedding collaborator may throw;
  the exception leaves \<open>findSimilar\<close>, which is the \<open>Inl\<close> result. The collaborator is
  not called when the index is empty.
\<close>

definition findSimilar ::
  "(string \<Rightarrow> error + real list) \<Rightarrow> doc list \<Rightarrow> string \<Rightarrow> nat \<Rightarrow> error + scored list" where
  "findSimilar generateEmbedding index queryText topK =
     (if length index = 0 then Inr []
      else (case generateEmbedding queryText of
              Inl e \<Rightarrow> Inl e
            | Inr queryEmbedding \<Rightarrow>
                (let similarities =
                       map (\<lambda>d. (d, cosineSimilarity (Some queryEmbedding) (embedding d))) index
                 in Inr (map stripEmbedding (take topK (sortByScore similarities))))))"


subsection \<open>filterResults\<close>









subsection \<open>Sample index entries\<close>



text \<open>An embedding collaborator that answers every text with the same vector.\<close>

definition constEmbedding :: "real list \<Rightarrow> string \<Rightarrow> error + real list" where
  "constEmbedding v text = Inr v"

section \<open>Indexers (gdrive-indexer.js, sow-indexer.js)\<close>

subsection \<open>Strings\<close>

text \<open>
  A \<open>string\<close> is the list of the code units of a JavaScript string, for code units below
  256. Letter case and digits are those of ASCII; \<open>\s\<close> is the white space below 256.
\<close>

definition toLowerChar :: "char \<Rightarrow> char" where
  "toLowerChar c =
     (case map_of (zip ''ABCDEFGHIJKLMNOPQRSTUVWXYZ'' ''abcdefghijklmnopqrstuvwxyz'') c of
        Some l \<Rightarrow> l
      | None \<Rightarrow> c)"

definition toLowerCase :: "string \<Rightarrow> string" where
  "toLowerCase s = map toLowerChar s"

definition isDigit :: "char \<Rightarrow> bool" where
  "isDigit c = (c \<in> set ''0123456789'')"

definition isSpace :: "char \<Rightarrow> bool" where
  "isSpace c = (c \<in> set [CHR 0x09, CHR 0x0A, CHR 0x0B, CHR 0x0C, CHR 0x0D, CHR 0x20, CHR 0xA0])"

text \<open>The character class \<open>[_\-\s]\<close>.\<close>

definition isSeparator :: "char \<Rightarrow> bool" where
  "isSeparator c = (c = CHR ''_'' \<or> c = CHR ''-'' \<or> isSpace c)"

text \<open>
  \<open>s.split(/[_\-\s]+/)\<close>: the pieces between the maximal runs of separators; a run at the
  start or at the end leaves an empty piece there, and the empty string splits into one
  empty piece. \<open>cur\<close> is the piece being read.
\<close>

fun splitFrom :: "string \<Rightarrow> string \<Rightarrow> string list" where
  "splitFrom cur [] = [cur]"
| "splitFrom cur (c # cs) =
     (if isSeparator c
      then (if cs \<noteq> [] \<and> isSeparator (hd cs) then splitFrom cur cs else cur # splitFrom [] cs)
      else splitFrom (cur @ [c]) cs)"

definition splitOnSeparators :: "string \<Rightarrow> string list" where
  "splitOnSeparators s = splitFrom [] s"

definition endsWith :: "string \<Rightarrow> string \<Rightarrow> bool" where
  "endsWith s ending = (length ending \<le> length s \<and> drop (length s - length ending) s = ending)"

text \<open>\<open>parts.join(sep)\<close>.\<close>

fun joinStrings :: "string \<Rightarrow> string list \<Rightarrow> string" where
  "joinStrings sep [] = []"
| "joinStrings sep [p] = p"
| "joinStrings sep (p # q # ps) = p @ sep @ joinStrings sep (q # ps)"

text \<open>\<open>s.trim()\<close>.\<close>

definition trim :: "string \<Rightarrow> string" where
  "trim s = rev (dropWhile isSpace (rev (dropWhile isSpace s)))"

text \<open>\<open>fileName.replace(/\.docx?$|\.pdf$/i, '')\<close>, on the file name \<open>name\<close>.\<close>

definition stripDocExtension :: "string \<Rightarrow> string" where
  "stripDocExtension name =
     (let lower = toLowerCase name in
      if endsWith lower ''.docx'' then take (length name - 5) name
      else if endsWith lower ''.doc'' then take (length name - 4) name
      else if endsWith lower ''.pdf'' then take (length name - 4) name
      else name)"

text \<open>The alternatives \<open>v\d\<close> and \<open>\d+\<close> of the two token patterns, on a whole token.\<close>

definition isVersionTag :: "string \<Rightarrow> bool" where
  "isVersionTag p = (case p of [v, d] \<Rightarrow> v = CHR ''v'' \<and> isDigit d | _ \<Rightarrow> False)"

definition isNumber :: "string \<Rightarrow> bool" where
  "isNumber p = (p \<noteq> [] \<and> list_all isDigit p)"

text \<open>\<open>p.match(/^(sow|scope|v\d|version|\d+|setup|inline)$/i)\<close> of the Drive indexer.\<close>

definition matchesDriveBoilerplate :: "string \<Rightarrow> bool" where
  "matchesDriveBoilerplate p =
     (let l = toLowerCase p in
      l \<in> set [''sow'', ''scope'', ''version'', ''setup'', ''inline'']
      \<or> isVersionTag l \<or> isNumber l)"

text \<open>\<open>p.toLowerCase().match(/^(sow|scope|v\d|version|\d+)$/)\<close> of the directory indexer.\<close>

definition matchesSowBoilerplate :: "string \<Rightarrow> bool" where
  "matchesSowBoilerplate p =
     (let l = toLowerCase p in
      l \<in> set [''sow'', ''scope'', ''version''] \<or> isVersionTag l \<or> isNumber l)"

text \<open>\<open>filtered[0] || 'Unknown'\<close>: the empty string is falsy, like a missing element.\<close>

definition firstOrUnknown :: "string list \<Rightarrow> string" where
  "firstOrUnknown filtered =
     (case filtered of [] \<Rightarrow> ''Unknown'' | p # _ \<Rightarrow> if p = [] then ''Unknown'' else p)"

text \<open>
  Node's \<open>path.basename\<close> and \<open>path.extname\<close> on POSIX paths that do not end in a slash
  (the indexer joins a directory with an entry name): the extension runs from the last dot
  of the base name, and is empty when there is no dot, when the only dot comes first, and
  for the name \<open>..\<close>. \<open>basenameWithout p ext\<close> is \<open>path.basename(p, ext)\<close>.
\<close>

definition basename :: "string \<Rightarrow> string" where
  "basename p = rev (takeWhile (\<lambda>c. c \<noteq> CHR ''/'') (rev p))"

definition extname :: "string \<Rightarrow> string" where
  "extname p =
     (let b = basename p; tail = takeWhile (\<lambda>c. c \<noteq> CHR ''.'') (rev b) in
      if CHR ''.'' \<notin> set b \<or> length tail + 1 = length b \<or> b = ''..'' then []
      else drop (length b - (length tail + 1)) b)"

definition basenameWithout :: "string \<Rightarrow> string \<Rightarrow> string" where
  "basenameWithout p ext =
     (let b = basename p in
      if ext \<noteq> [] \<and> endsWith b ext \<and> b \<noteq> ext then take (length b - length ext) b else b)"

subsection \<open>File-name metadata\<close>

text \<open>\<open>GDriveIndexer.extractMetadataFromFilename\<close>.\<close>

definition extractMetadataFromFilename :: "string \<Rightarrow> metadata" where
  "extractMetadataFromFilename name =
     (let parts = splitOnSeparators (stripDocExtension name);
          filtered = filter (\<lambda>p. \<not> matchesDriveBoilerplate p) parts
      in \<lparr>customer = Some (firstOrUnknown filtered),
          project = Some (joinStrings '' '' filtered),
          industry = Some ''unknown'',
          modules = Some [],
          integrations = Some [],
          features = Some [],
          complexity = Some ''medium'',
          summary = Some [],
          keywords = Some filtered\<rparr>)"

text \<open>\<open>SowIndexer.extractCustomerFromFilename\<close>.\<close>

definition extractCustomerFromFilename :: "string \<Rightarrow> string" where
  "extractCustomerFromFilename path =
     (let filename = basenameWithout path (extname path);
          parts = splitOnSeparators filename;
          filtered = filter (\<lambda>p. \<not> matchesSowBoilerplate p) parts
      in firstOrUnknown filtered)"

text \<open>The object \<open>SowIndexer.extractMetadata\<close> returns when the language model fails.\<close>

definition basicMetadata :: "string \<Rightarrow> metadata" where
  "basicMetadata path =
     \<lparr>customer = Some (extractCustomerFromFilename path),
      project = Some (basenameWithout path (extname path)),
      industry = Some ''unknown'',
      modules = Some [],
      integrations = Some [],
      features = Some [],
      complexity = Some ''medium'',
      summary = Some [],
      keywords = Some []\<rparr>"

subsection \<open>Collaborators\<close>

text \<open>
  The calls that leave the repository are parameters of the model:
  \<^item> \<open>cap_export\<close>: the text export of a Google document (\<open>downloadGoogleDoc\<close>), \<open>None\<close>
    when the download fails (the failure is caught there and \<open>null\<close> returned);
  \<^item> \<open>cap_extractTextFromDocx\<close>, \<open>cap_extractTextFromPdf\<close>: reading and converting a local
    file, which may throw;
  \<^item> \<open>cap_generateContent\<close>: the language model call of \<open>extractMetadata\<close> on the document
    name and the truncated text, together with the parsing of its answer: the metadata
    object, or \<open>None\<close> when the call throws, no JSON is found or parsing throws;
  \<^item> \<open>cap_generateEmbedding\<close>: \<open>GeminiClient.generateEmbedding\<close>, which may throw.
  Writing the index files is taken never to throw.
\<close>

record capabilities =
  cap_export :: "string \<Rightarrow> string option"
  cap_extractTextFromDocx :: "string \<Rightarrow> error + string option"
  cap_extractTextFromPdf :: "string \<Rightarrow> error + string option"
  cap_generateContent :: "string \<Rightarrow> string \<Rightarrow> metadata option"
  cap_generateEmbedding :: "string \<Rightarrow> error + real list"

subsection \<open>createEmbeddingText\<close>

text \<open>Template interpolation of a field: \<open>undefined\<close> prints as such.\<close>

definition showString :: "string option \<Rightarrow> string" where
  "showString v = (case v of None \<Rightarrow> ''undefined'' | Some s \<Rightarrow> s)"

definition showJoined :: "string list option \<Rightarrow> string" where
  "showJoined v = (case v of None \<Rightarrow> ''undefined'' | Some l \<Rightarrow> joinStrings '', '' l)"

definition newline :: string where
  "newline = [CHR 0x0A]"

definition createEmbeddingText :: "metadata \<Rightarrow> string" where
  "createEmbeddingText m =
     trim (newline @ ''Customer: '' @ showString (customer m)
         @ newline @ ''Project: '' @ showString (project m)
         @ newline @ ''Industry: '' @ showString (industry m)
         @ newline @ ''Features: '' @ showJoined (features m)
         @ newline @ ''Integrations: '' @ showJoined (integrations m)
         @ newline @ ''Modules: '' @ showJoined (modules m)
         @ newline @ ''Summary: '' @ showString (summary m)
         @ newline @ ''Keywords: '' @ showJoined (keywords m)
         @ newline @ ''    '')"

subsection \<open>Run state and saveIndex\<close>

text \<open>
  What an indexing run changes: \<open>this.index\<close>, the two counters, and the files written.
  Each call of \<open>saveIndex\<close> rewrites both artifacts; \<open>st_saves\<close> lists the pairs written,
  the full index and the light one (every entry without its \<open>embedding\<close>), oldest first.
\<close>

record run =
  st_index :: "doc list"
  st_processed :: nat
  st_failed :: nat
  st_saves :: "(doc list \<times> fields list) list"

definition saveIndex :: "run \<Rightarrow> run" where
  "saveIndex st = st\<lparr>st_saves := st_saves st @ [(st_index st, map fields.truncate (st_index st))]\<rparr>"

definition startRun :: "doc list \<Rightarrow> run" where
  "startRun idx = \<lparr>st_index = idx, st_processed = 0, st_failed = 0, st_saves = []\<rparr>"

text \<open>The summary \<open>{ processed, failed, total }\<close> returned by a run over \<open>files\<close>.\<close>

definition runSummary :: "run \<Rightarrow> 'f list \<Rightarrow> nat \<times> nat \<times> nat" where
  "runSummary st files = (st_processed st, st_failed st, length files)"

subsection \<open>GDriveIndexer\<close>

record gfile =
  gf_id :: string
  gf_name :: string
  gf_mimeType :: string
  gf_webViewLink :: "string option"
  gf_createdTime :: "string option"
  gf_modifiedTime :: "string option"

text \<open>
  \<open>downloadFile\<close>: only Google documents yield text; for any other type the bytes are
  fetched and \<open>null\<close> is returned either way.
\<close>

definition downloadFile :: "capabilities \<Rightarrow> gfile \<Rightarrow> string option" where
  "downloadFile caps file =
     (if gf_mimeType file = ''application/vnd.google-apps.document''
      then cap_export caps (gf_id file) else None)"

definition GDriveIndexer_extractMetadata :: "capabilities \<Rightarrow> string \<Rightarrow> string \<Rightarrow> metadata" where
  "GDriveIndexer_extractMetadata caps text name =
     (case cap_generateContent caps name (take 15000 text) of
        Some m \<Rightarrow> m
      | None \<Rightarrow> extractMetadataFromFilename name)"

text \<open>The object pushed by \<open>indexFolder\<close>: the file's fields, then the metadata spread.\<close>

definition driveRecord :: "gfile \<Rightarrow> metadata \<Rightarrow> real list option \<Rightarrow> doc" where
  "driveRecord file m emb =
     \<lparr>customer = customer m, project = project m, industry = industry m,
      modules = modules m, integrations = integrations m, features = features m,
      complexity = complexity m, summary = summary m, keywords = keywords m,
      doc_id = gf_id file, fileName = Some (gf_name file), filePath = None,
      webViewLink = gf_webViewLink file, createdTime = gf_createdTime file,
      modifiedTime = gf_modifiedTime file, textLength = None,
      embedding = emb\<rparr>"

text \<open>
  The body of the \<open>try\<close> of \<open>indexFolder\<close> up to the \<open>push\<close>: the entry to store, or the
  exception of the embedding collaborator.
\<close>

definition driveEntry :: "capabilities \<Rightarrow> gfile \<Rightarrow> error + doc" where
  "driveEntry caps file =
     (case downloadFile caps file of
        Some text \<Rightarrow>
          if text \<noteq> [] \<and> length text > 100
          then (let m = GDriveIndexer_extractMetadata caps text (gf_name file)
                in case cap_generateEmbedding caps (createEmbeddingText m) of
                     Inl e \<Rightarrow> Inl e
                   | Inr v \<Rightarrow> Inr (driveRecord file m (Some v)))
          else Inr (driveRecord file (extractMetadataFromFilename (gf_name file)) None)
      | None \<Rightarrow> Inr (driveRecord file (extractMetadataFromFilename (gf_name file)) None))"

text \<open>One iteration of the loop of \<open>indexFolder\<close> (the delay between files is not modelled).\<close>

definition indexFolder_step :: "capabilities \<Rightarrow> gfile \<Rightarrow> run \<Rightarrow> run" where
  "indexFolder_step caps file st =
     (case driveEntry caps file of
        Inr d \<Rightarrow>
          (let st' = st\<lparr>st_index := st_index st @ [d], st_processed := st_processed st + 1\<rparr>
           in if st_processed st' mod 50 = 0 then saveIndex st' else st')
      | Inl e \<Rightarrow> st\<lparr>st_failed := st_failed st + 1\<rparr>)"



subsection \<open>SowIndexer\<close>

definition SowIndexer_extractMetadata :: "capabilities \<Rightarrow> string \<Rightarrow> string \<Rightarrow> metadata" where
  "SowIndexer_extractMetadata caps text path =
     (case cap_generateContent caps (basename path) (take 15000 text) of
        Some m \<Rightarrow> m
      | None \<Rightarrow> basicMetadata path)"

definition sowRecord :: "string \<Rightarrow> metadata \<Rightarrow> real list \<Rightarrow> nat \<Rightarrow> doc" where
  "sowRecord path m v n =
     \<lparr>customer = customer m, project = project m, industry = industry m,
      modules = modules m, integrations = integrations m, features = features m,
      complexity = complexity m, summary = summary m, keywords = keywords m,
      doc_id = basename path, fileName = None, filePath = Some path,
      webViewLink = None, createdTime = None, modifiedTime = None, textLength = Some n,
      embedding = Some v\<rparr>"

text \<open>
  \<open>processSowFile\<close>: \<open>Inr None\<close> is the \<open>null\<close> returned for another extension and for a
  text that is missing, empty or shorter than 100; \<open>Inl\<close> is an exception of a collaborator.
\<close>

definition processSowFile :: "capabilities \<Rightarrow> string \<Rightarrow> error + doc option" where
  "processSowFile caps path =
     (let ext = toLowerCase (extname path) in
      if ext \<noteq> ''.docx'' \<and> ext \<noteq> ''.pdf'' then Inr None
      else (case (if ext = ''.docx'' then cap_extractTextFromDocx caps path
                  else cap_extractTextFromPdf caps path) of
              Inl e \<Rightarrow> Inl e
            | Inr None \<Rightarrow> Inr None
            | Inr (Some text) \<Rightarrow>
                if text = [] \<or> length text < 100 then Inr None
                else (let m = SowIndexer_extractMetadata caps text path
                      in case cap_generateEmbedding caps (createEmbeddingText m) of
                           Inl e \<Rightarrow> Inl e
                         | Inr v \<Rightarrow> Inr (Some (sowRecord path m v (length text))))))"

text \<open>One iteration of the loop of \<open>indexDirectory\<close>; every 50th entry is only logged.\<close>

definition indexDirectory_step :: "capabilities \<Rightarrow> string \<Rightarrow> run \<Rightarrow> run" where
  "indexDirectory_step caps path st =
     (case processSowFile caps path of
        Inr (Some sowData) \<Rightarrow>
          st\<lparr>st_index := st_index st @ [sowData], st_processed := st_processed st + 1\<rparr>
      | Inr None \<Rightarrow> st
      | Inl e \<Rightarrow> st\<lparr>st_failed := st_failed st + 1\<rparr>)"

definition indexDirectory_loop :: "capabilities \<Rightarrow> string list \<Rightarrow> run \<Rightarrow> run" where
  "indexDirectory_loop caps files st = fold (indexDirectory_step caps) files st"

definition indexDirectory :: "capabilities \<Rightarrow> doc list \<Rightarrow> string list \<Rightarrow> run" where
  "indexDirectory caps idx files = saveIndex (indexDirectory_loop caps files (startRun idx))"

subsection \<open>Progress at risk\<close>


subsection \<open>Sample collaborators and files\<close>

text \<open>
  Collaborators that return the text \<open>t\<close> for every document, a language model that always
  fails, and a constant embedding.
\<close>

definition sampleCaps :: "string option \<Rightarrow> capabilities" where
  "sampleCaps t =
     \<lparr>cap_export = (\<lambda>_. t),
      cap_extractTextFromDocx = (\<lambda>_. Inr t),
      cap_extractTextFromPdf = (\<lambda>_. Inr t),
      cap_generateContent = (\<lambda>_ _. None),
      cap_generateEmbedding = constEmbedding [1, 0]\<rparr>"

definition sampleFile :: "string \<Rightarrow> gfile" where
  "sampleFile i =
     \<lparr>gf_id = i, gf_name = ''SOW_Acme_IVR.docx'',
      gf_mimeType = ''application/vnd.google-apps.document'',
      gf_webViewLink = None, gf_createdTime = None, gf_modifiedTime = None\<rparr>"

definition longText :: string where
  "longText = replicate 120 CHR ''x''"

subsection \<open>The fallback as the specification words it\<close>


subsection \<open>Auxiliary: what a loop appends\<close>


subsection \<open>Auxiliary: the checkpoint invariant of the Drive loop\<close>


section \<open>Vector math\<close>













section \<open>Retriever\<close>

text \<open>
  C8. A query against an empty index returns the empty sequence, whatever the query text and
  \<open>topK\<close>, and whatever the embedding collaborator would do: it is not called.
\<close>

theorem findSimilar_empty_index:
  "findSimilar generateEmbedding [] queryText topK = Inr []"
  by (simp add: findSimilar_def)































section \<open>File-name metadata\<close>

lemmas string_eval =
  splitOnSeparators_def isSeparator_def isSpace_def stripDocExtension_def endsWith_def
  toLowerCase_def toLowerChar_def isVersionTag_def isNumber_def isDigit_def
  matchesDriveBoilerplate_def matchesSowBoilerplate_def firstOrUnknown_def
  basename_def extname_def basenameWithout_def








section \<open>Indexing runs\<close>

lemma indexFolder_step_Inr:
  assumes "driveEntry caps file = Inr d"
  shows "st_index (indexFolder_step caps file st) = st_index st @ [d]"
    and "st_processed (indexFolder_step caps file st) = st_processed st + 1"
    and "st_failed (indexFolder_step caps file st) = st_failed st"
    and "st_saves (indexFolder_step caps file st) =
           (if (st_processed st + 1) mod 50 = 0
            then st_saves st @ [(st_index st @ [d], map fields.truncate (st_index st @ [d]))]
            else st_saves st)"
  using assms by (simp_all add: indexFolder_step_def saveIndex_def Let_def)


lemma driveEntry_short:
  assumes "case downloadFile caps file of None \<Rightarrow> True | Some text \<Rightarrow> length text \<le> 100"
  shows "driveEntry caps file = Inr (driveRecord file (extractMetadataFromFilename (gf_name file)) None)"
  using assms by (auto simp: driveEntry_def split: option.splits)

lemma driveEntry_embedding:
  assumes "driveEntry caps file = Inr d" "embedding d \<noteq> None"
  shows "\<exists>text. downloadFile caps file = Some text \<and> length text > 100"
  using assms
  by (auto simp: driveEntry_def driveRecord_def Let_def split: option.splits if_splits sum.splits)


lemma processSowFile_short:
  assumes "toLowerCase (extname path) = ''.docx'' \<and> cap_extractTextFromDocx caps path = Inr t
           \<or> toLowerCase (extname path) = ''.pdf'' \<and> cap_extractTextFromPdf caps path = Inr t"
    and "case t of None \<Rightarrow> True | Some text \<Rightarrow> length text < 100"
  shows "processSowFile caps path = Inr None"
  using assms by (auto simp: processSowFile_def Let_def split: option.splits)

lemma processSowFile_Some:
  assumes "processSowFile caps path = Inr (Some d)"
  shows "embedding d \<noteq> None" and "\<exists>n. textLength d = Some n \<and> 100 \<le> n"
    and "doc_id d = basename path"
  using assms
  by (auto simp: processSowFile_def sowRecord_def Let_def
           split: option.splits if_splits sum.splits)

lemma indexDirectory_step_cases:
  "processSowFile caps path = Inr None \<Longrightarrow> indexDirectory_step caps path st = st"
  "processSowFile caps path = Inl e \<Longrightarrow>
     indexDirectory_step caps path st = st\<lparr>st_failed := st_failed st + 1\<rparr>"
  "processSowFile caps path = Inr (Some d) \<Longrightarrow>
     indexDirectory_step caps path st
       = st\<lparr>st_index := st_index st @ [d], st_processed := st_processed st + 1\<rparr>"
  by (simp_all add: indexDirectory_step_def)

lemmas sample_eval =
  sampleCaps_def sampleFile_def constEmbedding_def downloadFile_def longText_def


lemma sample_extname_pdf: "toLowerCase (extname ''in/sow_acme.pdf'') = ''.pdf''"
  by (simp add: string_eval)

lemma sample_processSowFile_short:
  "processSowFile (sampleCaps (Some ''short'')) ''in/sow_acme.pdf'' = Inr None"
  by (simp add: processSowFile_def sample_extname_pdf sample_eval)

lemma sample_processSowFile_null:
  "processSowFile (sampleCaps None) ''in/sow_acme.pdf'' = Inr None"
  by (simp add: processSowFile_def sample_extname_pdf sample_eval)

text \<open>
  Counterexample to C2 as stated: the directory indexer stores no entry for a document with
  a short text, or with none, and counts it neither as processed nor as failed.
\<close>

theorem indexDirectory_skips_short_text_counterexample:
  "st_index (indexDirectory (sampleCaps (Some ''short'')) [] [''in/sow_acme.pdf'']) = []
   \<and> runSummary (indexDirectory (sampleCaps (Some ''short'')) [] [''in/sow_acme.pdf''])
        [''in/sow_acme.pdf''] = (0, 0, 1)
   \<and> st_index (indexDirectory (sampleCaps None) [] [''in/sow_acme.pdf'']) = []
   \<and> runSummary (indexDirectory (sampleCaps None) [] [''in/sow_acme.pdf''])
        [''in/sow_acme.pdf''] = (0, 0, 1)"
  by (simp add: indexDirectory_def indexDirectory_loop_def indexDirectory_step_def
        sample_processSowFile_short sample_processSowFile_null
        saveIndex_def startRun_def runSummary_def)

text \<open>
  C2, as the source has it. The two indexers treat a document without usable text
  differently. In \<open>GDriveIndexer.indexFolder\<close>, a document whose download yields \<open>null\<close>
  or at most 100 characters gets an entry with the file-name metadata and no embedding, and
  is counted in \<open>processed\<close>, not in \<open>failed\<close>; an entry has an embedding only when the
  text had more than 100 characters. In \<open>SowIndexer.indexDirectory\<close>, a document whose
  extraction yields no text or fewer than 100 characters is skipped: no entry is stored and
  neither counter changes; every entry stored there has an embedding and a text of at least
  100 characters.
\<close>

theorem short_text_by_indexer:
  "((case downloadFile caps file of None \<Rightarrow> True | Some text \<Rightarrow> length text \<le> 100) \<longrightarrow>
      st_index (indexFolder_step caps file st)
        = st_index st @ [driveRecord file (extractMetadataFromFilename (gf_name file)) None]
      \<and> embedding (last (st_index (indexFolder_step caps file st))) = None
      \<and> st_processed (indexFolder_step caps file st) = st_processed st + 1
      \<and> st_failed (indexFolder_step caps file st) = st_failed st)
   \<and> (\<forall>d. driveEntry caps file = Inr d \<and> embedding d \<noteq> None \<longrightarrow>
          (\<exists>text. downloadFile caps file = Some text \<and> length text > 100))
   \<and> (\<forall>t. (toLowerCase (extname path) = ''.docx'' \<and> cap_extractTextFromDocx caps path = Inr t
           \<or> toLowerCase (extname path) = ''.pdf'' \<and> cap_extractTextFromPdf caps path = Inr t)
          \<and> (case t of None \<Rightarrow> True | Some text \<Rightarrow> length text < 100) \<longrightarrow>
          indexDirectory_step caps path st' = st')
   \<and> (\<forall>d. processSowFile caps path = Inr (Some d) \<longrightarrow>
          embedding d \<noteq> None \<and> (\<exists>n. textLength d = Some n \<and> 100 \<le> n))"
  (is "?A \<and> ?B \<and> ?C \<and> ?D")
proof -
  have a: ?A
  proof
    assume "case downloadFile caps file of None \<Rightarrow> True | Some text \<Rightarrow> length text \<le> 100"
    then have e: "driveEntry caps file
        = Inr (driveRecord file (extractMetadataFromFilename (gf_name file)) None)"
      by (rule driveEntry_short)
    show "st_index (indexFolder_step caps file st)
        = st_index st @ [driveRecord file (extractMetadataFromFilename (gf_name file)) None]
      \<and> embedding (last (st_index (indexFolder_step caps file st))) = None
      \<and> st_processed (indexFolder_step caps file st) = st_processed st + 1
      \<and> st_failed (indexFolder_step caps file st) = st_failed st"
      by (simp add: indexFolder_step_Inr[OF e] driveRecord_def)
  qed
  have b: ?B using driveEntry_embedding by blast
  have c: ?C
  proof (intro allI impI)
    fix t
    assume h: "(toLowerCase (extname path) = ''.docx'' \<and> cap_extractTextFromDocx caps path = Inr t
           \<or> toLowerCase (extname path) = ''.pdf'' \<and> cap_extractTextFromPdf caps path = Inr t)
          \<and> (case t of None \<Rightarrow> True | Some text \<Rightarrow> length text < 100)"
    then have "processSowFile caps path = Inr None"
      using processSowFile_short[of path caps t] by blast
    then show "indexDirectory_step caps path st' = st'" by (rule indexDirectory_step_cases(1))
  qed
  have d: ?D using processSowFile_Some(1,2) by blast
  from a b c d show ?thesis by (intro conjI)
qed

theorem short_text_by_indexer_witness:
  "(case downloadFile (sampleCaps (Some ''short'')) (sampleFile ''f1'') of
      None \<Rightarrow> True | Some text \<Rightarrow> length text \<le> 100)
   \<and> st_index (indexFolder_step (sampleCaps (Some ''short'')) (sampleFile ''f1'') (startRun []))
       = [driveRecord (sampleFile ''f1'') (extractMetadataFromFilename (gf_name (sampleFile ''f1''))) None]
   \<and> st_processed (indexFolder_step (sampleCaps (Some ''short'')) (sampleFile ''f1'') (startRun [])) = 1
   \<and> st_failed (indexFolder_step (sampleCaps (Some ''short'')) (sampleFile ''f1'') (startRun [])) = 0
   \<and> toLowerCase (extname ''in/sow_acme.pdf'') = ''.pdf''
   \<and> cap_extractTextFromPdf (sampleCaps (Some ''short'')) ''in/sow_acme.pdf'' = Inr (Some ''short'')
   \<and> indexDirectory_step (sampleCaps (Some ''short'')) ''in/sow_acme.pdf'' (startRun []) = startRun []"
proof -
  have h1: "case downloadFile (sampleCaps (Some ''short'')) (sampleFile ''f1'') of
      None \<Rightarrow> True | Some text \<Rightarrow> length text \<le> 100"
    by (simp add: sample_eval)
  have h2: "toLowerCase (extname ''in/sow_acme.pdf'') = ''.pdf''" by (rule sample_extname_pdf)
  have h3: "cap_extractTextFromPdf (sampleCaps (Some ''short'')) ''in/sow_acme.pdf'' = Inr (Some ''short'')"
    by (simp add: sampleCaps_def)
  have h4: "case Some ''short'' of None \<Rightarrow> True | Some text \<Rightarrow> length text < 100" by simp
  note t = short_text_by_indexer[where caps = "sampleCaps (Some ''short'')" and ?file = "sampleFile ''f1''"
      and st = "startRun []" and path = "''in/sow_acme.pdf''" and st' = "startRun []"]
  from t h1 have g: "st_index (indexFolder_step (sampleCaps (Some ''short'')) (sampleFile ''f1'') (startRun []))
       = st_index (startRun []) @ [driveRecord (sampleFile ''f1'') (extractMetadataFromFilename (gf_name (sampleFile ''f1''))) None]
     \<and> st_processed (indexFolder_step (sampleCaps (Some ''short'')) (sampleFile ''f1'') (startRun []))
         = st_processed (startRun []) + 1
     \<and> st_failed (indexFolder_step (sampleCaps (Some ''short'')) (sampleFile ''f1'') (startRun []))
         = st_failed (startRun [])"
    by blast
  from t h2 h3 h4 have s: "indexDirectory_step (sampleCaps (Some ''short'')) ''in/sow_acme.pdf'' (startRun []) = startRun []"
    by blast
  from g s h1 h2 h3 show ?thesis by (simp add: startRun_def)
qed




























end
